theory Spec2Isabelle
  imports Complex_Main
begin

section \<open>Process environment and the ways not to return\<close>

text \<open>
  The programs read their configuration with \<^verbatim>\<open>os.Getenv\<close> and \<^verbatim>\<open>os.LookupEnv\<close>.
  The environment is a map from variable names to values; \<^verbatim>\<open>os.LookupEnv\<close> is the
  map itself, and \<^verbatim>\<open>os.Getenv\<close> returns the empty string for a variable that is
  not set.
\<close>

type_synonym environ = "string \<rightharpoonup> string"

definition Getenv :: "environ \<Rightarrow> string \<Rightarrow> string" where
  "Getenv env k = (case env k of None \<Rightarrow> [] | Some v \<Rightarrow> v)"

text \<open>
  A function of the program can fail to return in three ways.
  \<^item> \<open>Fatal msg\<close>: \<^verbatim>\<open>log.Fatalf\<close> prints its message and ends the process with
    \<^verbatim>\<open>os.Exit(1)\<close>; nothing after it runs, deferred calls included.
  \<^item> \<open>Blocked\<close>: an external call that the program asked to block never completes, so
    the function neither returns nor exits.
  \<^item> \<open>Panic v\<close>: \<^verbatim>\<open>panic(v)\<close>, or a run-time panic; the deferred calls run, and the
    process crashes unless one of them exits first.
  A function that may do so returns \<open>stop + 'a\<close>, with \<open>Inl\<close> for not returning. A Go
  \<^verbatim>\<open>error\<close> is \<open>None\<close> for \<^verbatim>\<open>nil\<close> and \<open>Some msg\<close> otherwise, \<open>msg\<close> being what
  \<^verbatim>\<open>err.Error()\<close> returns (the text that the verbs \<^verbatim>\<open>%v\<close> and \<^verbatim>\<open>%s\<close> print).
\<close>

datatype stop = Fatal string | Blocked | Panic string

type_synonym error = "string option"

text \<open>
  \<^verbatim>\<open>
  func handleErr(err error, message string) {
      if err != nil {
          log.Fatalf("%s: %v", message, err)
      }
  }
  \<close>
\<close>

definition handleErr :: "error \<Rightarrow> string \<Rightarrow> stop + unit" where
  "handleErr err message =
     (case err of
        Some e \<Rightarrow> Inl (Fatal (message @ '': '' @ e))
      | None \<Rightarrow> Inr ())"

section \<open>Sampler selection\<close>

text \<open>
  The samplers are values of the telemetry SDK; the program only builds them. The
  datatype has the three constructors the program uses. The ratio \<^verbatim>\<open>0.5\<close> is the
  rational one half. The file \<^verbatim>\<open>jaeger.go\<close> and the client call the function below
  under its exported name \<^verbatim>\<open>GetSampler\<close>.
\<close>

datatype sampler =
    AlwaysSample
  | TraceIDRatioBased rat
  | ParentBased sampler

text \<open>
  \<^verbatim>\<open>
  func getSampler() sdktrace.Sampler {
      ENV := os.Getenv("GO_ENV")
      switch ENV {
      case "development":
          return sdktrace.AlwaysSample()
      case "production":
          return sdktrace.ParentBased(sdktrace.TraceIDRatioBased(0.5))
      default:
          return sdktrace.AlwaysSample()
      }
  }
  \<close>
\<close>

definition getSampler :: "environ \<Rightarrow> sampler" where
  "getSampler env =
     (let ENV = Getenv env ''GO_ENV'' in
      if ENV = ''development'' then AlwaysSample
      else if ENV = ''production'' then ParentBased (TraceIDRatioBased (1 / 2))
      else AlwaysSample)"

text \<open>
  Modelled from the spec: the meaning of a sampling policy, which the SDK implements and
  the repository does not. Section 4.4 of the specification: \<open>always\<close> is always true;
  \<open>parent_based(inner)\<close> honours an inherited sampled flag if one is present and
  otherwise delegates to \<open>inner\<close>; \<open>ratio(p)\<close> is a decision derived from the trace id.
  The ratio decision itself is a parameter \<open>ratio\<close>; the inherited flag is
  \<open>Some flag\<close> when the span has a parent and \<open>None\<close> at a trace root.
\<close>

fun decide :: "(rat \<Rightarrow> 'tid \<Rightarrow> bool) \<Rightarrow> sampler \<Rightarrow> bool option \<Rightarrow> 'tid \<Rightarrow> bool" where
  "decide ratio AlwaysSample inherited t = True"
| "decide ratio (TraceIDRatioBased p) inherited t = ratio p t"
| "decide ratio (ParentBased inner) inherited t =
     (case inherited of
        Some flag \<Rightarrow> flag
      | None \<Rightarrow> decide ratio inner inherited t)"

section \<open>Provider initialisation\<close>

text \<open>
  The SDK constructors are external calls; what the program does with them depends only
  on how each one ends. The record holds these outcomes, one field per constructor:
  \<^verbatim>\<open>resource.New\<close>, \<^verbatim>\<open>otlpmetricgrpc.New\<close>, \<^verbatim>\<open>otlptrace.New\<close> and \<^verbatim>\<open>jaeger.New\<close>.

  \<^verbatim>\<open>otlptrace.New(ctx, traceClient)\<close> starts the trace client, which the program built
  with \<^verbatim>\<open>otlptracegrpc.WithDialOption(grpc.WithBlock())\<close>, under
  \<^verbatim>\<open>ctx := context.Background()\<close>, a context without deadline. The dial blocks until
  the connection to the collector is up: the call returns \<^verbatim>\<open>nil\<close> (\<open>Dialled None\<close>),
  returns an error (\<open>Dialled (Some e)\<close>), or, while the collector cannot be reached,
  never returns (\<open>DialBlocks\<close>). The other three constructors are called without a
  blocking option and are taken to return.
\<close>

datatype dial = Dialled error | DialBlocks

record sdk_results =
  resource_New :: error
  otlpmetricgrpc_New :: error
  otlptrace_New :: dial
  jaeger_New :: error

datatype exporter = OTLPTraceGRPC string | JaegerCollector string

datatype propagator = TraceContext | Baggage

text \<open>
  A resource is represented by the attributes the program passes with
  \<^verbatim>\<open>resource.WithAttributes\<close>; the attributes that the SDK's detectors add are not
  part of the model.
\<close>

type_synonym attributes = "(string \<times> string) list"

record tracer_provider =
  tp_sampler :: sampler
  tp_resource :: attributes
  tp_exporter :: exporter

record meter_provider =
  mp_resource :: attributes
  mp_endpoint :: string
  mp_interval_seconds :: nat

text \<open>The process-wide values that \<^verbatim>\<open>otel.Set...\<close> installs.\<close>

record otel_globals =
  MeterProvider :: "meter_provider option"
  TextMapPropagator :: "propagator list"
  TracerProvider :: "tracer_provider option"

text \<open>
  \<^verbatim>\<open>InitProvider\<close> (file \<^verbatim>\<open>otel.go\<close>): resource, metric exporter and trace exporter are
  created in this order, each followed by \<^verbatim>\<open>handleErr\<close>; then the providers and the
  composite propagator are installed. The result is the global state installed, or the
  way the function did not return: the fatal exit of a \<^verbatim>\<open>handleErr\<close>, or the dial of
  the trace exporter that blocks for ever.
\<close>

definition InitProvider :: "string \<Rightarrow> environ \<Rightarrow> sdk_results \<Rightarrow> stop + otel_globals" where
  "InitProvider serverName env sdk =
     (let res = [(''service.name'', serverName), (''environment'', Getenv env ''GO_ENV'')] in
      case handleErr (resource_New sdk) ''failed to create resource'' of
        Inl f \<Rightarrow> Inl f
      | Inr _ \<Rightarrow>
     (let otelAgentAddr =
            (case env ''OTEL_EXPORTER_OTLP_ENDPOINT'' of
               Some a \<Rightarrow> a
             | None \<Rightarrow> ''0.0.0.0:4317'') in
      case handleErr (otlpmetricgrpc_New sdk) ''Failed to create the collector metric exporter'' of
        Inl f \<Rightarrow> Inl f
      | Inr _ \<Rightarrow>
     (let meterProvider =
            \<lparr>mp_resource = res, mp_endpoint = otelAgentAddr, mp_interval_seconds = 2\<rparr> in
      case otlptrace_New sdk of
        DialBlocks \<Rightarrow> Inl Blocked
      | Dialled err \<Rightarrow>
     (case handleErr err ''Failed to create the collector trace exporter'' of
        Inl f \<Rightarrow> Inl f
      | Inr _ \<Rightarrow>
     (let tracerProvider =
            \<lparr>tp_sampler = getSampler env, tp_resource = res,
             tp_exporter = OTLPTraceGRPC otelAgentAddr\<rparr> in
      Inr \<lparr>MeterProvider = Some meterProvider,
           TextMapPropagator = [TraceContext, Baggage],
           TracerProvider = Some tracerProvider\<rparr>)))))"

text \<open>
  The function that \<^verbatim>\<open>InitProvider\<close> returns shuts the trace exporter and the meter
  provider down and gives each error to \<^verbatim>\<open>otel.Handle\<close>. Its arguments are the errors
  of the two shut-down calls; its result is the list of errors handed over, in order.
\<close>

definition otelShutdown :: "error \<Rightarrow> error \<Rightarrow> string list" where
  "otelShutdown traceExp_Shutdown meterProvider_Shutdown =
     (case traceExp_Shutdown of Some e \<Rightarrow> [e] | None \<Rightarrow> []) @
     (case meterProvider_Shutdown of Some e \<Rightarrow> [e] | None \<Rightarrow> [])"

text \<open>
  File \<^verbatim>\<open>jaeger.go\<close>: \<^verbatim>\<open>newResource\<close> exits on an error of \<^verbatim>\<open>resource.New\<close>;
  \<^verbatim>\<open>exporterToJaeger\<close> returns the exporter or the error of \<^verbatim>\<open>jaeger.New\<close>;
  \<^verbatim>\<open>InitProviderWithJaegerExporter\<close> exits on that error, and otherwise installs the
  tracer provider and returns it (for its \<^verbatim>\<open>Shutdown\<close>) with a \<^verbatim>\<open>nil\<close> error.
\<close>

definition newResource :: "environ \<Rightarrow> sdk_results \<Rightarrow> stop + attributes" where
  "newResource env sdk =
     (case resource_New sdk of
        Some e \<Rightarrow> Inl (Fatal (''Failed to create resource'' @ '': '' @ e))
      | None \<Rightarrow>
          Inr [(''service.name'', Getenv env ''SERVICE_NAME''),
               (''environment'', Getenv env ''GO_ENV'')])"

definition exporterToJaeger :: "environ \<Rightarrow> sdk_results \<Rightarrow> string + exporter" where
  "exporterToJaeger env sdk =
     (case jaeger_New sdk of
        Some e \<Rightarrow> Inl e
      | None \<Rightarrow> Inr (JaegerCollector (Getenv env ''OPEN_TELEMETRY_COLLECTOR_URL'')))"

definition InitProviderWithJaegerExporter ::
  "environ \<Rightarrow> sdk_results \<Rightarrow> stop + (tracer_provider \<times> error)" where
  "InitProviderWithJaegerExporter env sdk =
     (case exporterToJaeger env sdk of
        Inl e \<Rightarrow> Inl (Fatal (''error: '' @ e))
      | Inr exp' \<Rightarrow>
          (case newResource env sdk of
             Inl f \<Rightarrow> Inl f
           | Inr res \<Rightarrow>
               Inr (\<lparr>tp_sampler = getSampler env, tp_resource = res, tp_exporter = exp'\<rparr>,
                    None)))"

text \<open>
  The client's \<^verbatim>\<open>initTracer\<close> discards the error of \<^verbatim>\<open>resource.New\<close>
  (\<^verbatim>\<open>res, _ := resource.New(...)\<close>), dials the collector with the same blocking option
  under \<^verbatim>\<open>context.Background()\<close>, and exits on a trace exporter error; its deferred
  shut-down exits on an error of \<^verbatim>\<open>tp.Shutdown\<close>. \<^verbatim>\<open>telemetry.HandleErr\<close> is
  \<^verbatim>\<open>handleErr\<close> as the client imports it.
\<close>

definition clientName :: string where
  "clientName = ''otel-example-client''"

definition initTracer :: "environ \<Rightarrow> sdk_results \<Rightarrow> stop + (otel_globals \<times> error)" where
  "initTracer env sdk =
     (let res = [(''service.name'', clientName), (''environment'', Getenv env ''GO_ENV'')];
          otelAgentAddr =
            (case env ''OTEL_EXPORTER_OTLP_ENDPOINT'' of
               Some a \<Rightarrow> a
             | None \<Rightarrow> ''0.0.0.0:4317'') in
      case otlptrace_New sdk of
        DialBlocks \<Rightarrow> Inl Blocked
      | Dialled err \<Rightarrow>
     (case handleErr err ''Failed to create the collector trace exporter'' of
        Inl f \<Rightarrow> Inl f
      | Inr _ \<Rightarrow>
          Inr (\<lparr>MeterProvider = None,
                TextMapPropagator = [TraceContext, Baggage],
                TracerProvider =
                  Some \<lparr>tp_sampler = getSampler env, tp_resource = res,
                        tp_exporter = OTLPTraceGRPC otelAgentAddr\<rparr>\<rparr>,
               None)))"

definition client_shutdown :: "error \<Rightarrow> stop + unit" where
  "client_shutdown tp_Shutdown = handleErr tp_Shutdown ''Error shutting down tracer provider''"

section \<open>The server's request handler\<close>

definition serverName :: string where
  "serverName = ''otel-example-server''"

text \<open>
  A request context carries the baggage and the active span, the two things the handler
  reads from it. The span of the context is an opaque handle, absent when the context
  has none. \<^verbatim>\<open>baggage.Member(key).Value()\<close> is the value of the member, and the empty
  string when the baggage has no such member.
\<close>

record ctx =
  ctx_baggage :: "string \<rightharpoonup> string"
  ctx_span :: "nat option"

definition Member_Value :: "(string \<rightharpoonup> string) \<Rightarrow> string \<Rightarrow> string" where
  "Member_Value bag key = (case bag key of None \<Rightarrow> [] | Some v \<Rightarrow> v)"

text \<open>
  The span methods belong to the SDK. The model records the calls the program makes on a
  span, in order: a span started by the program is the tracer's name, the span's name,
  the context it was started from and the calls made on it.
\<close>

datatype span_call =
    AddEvent string attributes
  | RecordError string
  | End

record started_span =
  sp_tracer :: string
  sp_name :: string
  sp_parent :: ctx
  sp_calls :: "span_call list"

definition Start :: "string \<Rightarrow> ctx \<Rightarrow> string \<Rightarrow> started_span" where
  "Start tracerName ctx spanName =
     \<lparr>sp_tracer = tracerName, sp_name = spanName, sp_parent = ctx, sp_calls = []\<rparr>"

definition call :: "started_span \<Rightarrow> span_call \<Rightarrow> started_span" where
  "call sp c = sp\<lparr>sp_calls := sp_calls sp @ [c]\<rparr>"

text \<open>
  \<^verbatim>\<open>
  func getPackage(ctx context.Context, id string) string {
      _, span := trace.SpanFromContext(ctx).TracerProvider().Tracer(serverName).Start(ctx, "getPackage")
      defer span.End()

      span.AddEvent("getPackage", trace.WithAttributes(attribute.String("package", id)))
      if id == "123" {
          span.AddEvent("found package")
          return "found package"
      }
      span.RecordError(fmt.Errorf("package not found"))
      return "unknown"
  }
  \<close>
  The deferred \<^verbatim>\<open>span.End()\<close> runs at each return, after the calls of that path.
  The successive states of the one span are \<open>sp0\<close>, \<open>sp1\<close>, \<open>sp2\<close>.
\<close>

definition getPackage :: "ctx \<Rightarrow> string \<Rightarrow> string \<times> started_span" where
  "getPackage ctx id' =
     (let sp0 = Start serverName ctx ''getPackage'';
          sp1 = call sp0 (AddEvent ''getPackage'' [(''package'', id')]) in
      if id' = ''123'' then
        (let sp2 = call sp1 (AddEvent ''found package'' []) in
         (''found package'', call sp2 End))
      else
        (let sp2 = call sp1 (RecordError ''package not found'') in
         (''unknown'', call sp2 End)))"

text \<open>
  A \<^verbatim>\<open>http.ResponseWriter\<close>: the status code once the header has been written, and the
  chunks written to the body. \<^verbatim>\<open>Write\<close> before any \<^verbatim>\<open>WriteHeader\<close> writes the header
  with status 200 first, as net/http documents.
\<close>

record response_writer =
  status :: "nat option"
  body :: "string list"

definition Write :: "response_writer \<Rightarrow> string \<Rightarrow> response_writer" where
  "Write w b =
     w\<lparr>status := (case status w of None \<Rightarrow> Some 200 | Some c \<Rightarrow> Some c),
       body := body w @ [b]\<rparr>"

definition new_response :: response_writer where
  "new_response = \<lparr>status = None, body = []\<rparr>"

text \<open>
  The handler of \<^verbatim>\<open>/packages/{id:[0-9]+}\<close>. Its effects are the response writer, the
  span that \<^verbatim>\<open>getPackage\<close> started, and the calls made on the span of the request's
  context.
\<close>

record handled =
  response :: response_writer
  package_span :: started_span
  request_span_calls :: "span_call list"

text \<open>
  \<^verbatim>\<open>fmt.Sprintf("package is %s (id %s)\n", pr, id)\<close>; the last character is the
  line feed.
\<close>

definition reply_of :: "string \<Rightarrow> string \<Rightarrow> string" where
  "reply_of pr id' = ''package is '' @ pr @ '' (id '' @ id' @ '')'' @ [CHR 0x0A]"

definition packages_handler :: "response_writer \<Rightarrow> ctx \<Rightarrow> string \<Rightarrow> handled" where
  "packages_handler w ctx id' =
     (let (pr, pspan) = getPackage ctx id';
          baggage = ctx_baggage ctx;
          destination = Member_Value baggage ''destination'';
          transportation = Member_Value baggage ''transportation'';
          event = AddEvent ''Obtaining package''
                    [(''destination'', destination), (''transportation'', transportation)];
          reply = reply_of pr id' in
      \<lparr>response = Write w reply, package_span = pspan, request_span_calls = [event]\<rparr>)"

section \<open>The client's request\<close>

text \<open>
  The client starts its span with an attribute
  (\<^verbatim>\<open>trace.WithAttributes(semconv.PeerService("otel-example-server"))\<close>), so its span
  record has the attributes given at the start as well.
\<close>

record client_span = started_span +
  sp_attributes :: attributes

text \<open>
  The external calls of the client's \<^verbatim>\<open>main\<close> after \<^verbatim>\<open>initTracer\<close>, each with the
  result it returns: the error of \<^verbatim>\<open>http.NewRequestWithContext\<close> (the program discards
  it: \<^verbatim>\<open>req, _ := ...\<close>), the error of \<^verbatim>\<open>client.Do\<close>, the bytes and the error of
  \<^verbatim>\<open>io.ReadAll\<close>, and the error of \<^verbatim>\<open>tp.Shutdown\<close>. These calls are taken to return.
\<close>

record client_results =
  NewRequestWithContext :: error
  client_Do :: error
  io_ReadAll :: "string \<times> error"
  tp_Shutdown :: error

text \<open>
  \<^verbatim>\<open>
  err = func(ctx context.Context) error {
      ctx, span := tr.Start(
          ctx,
          "Otel propagation example: sending package from boston",
          trace.WithAttributes(semconv.PeerService("otel-example-server")))
      defer span.End()
      req, _ := http.NewRequestWithContext(ctx, "GET", *url, nil)

      span.AddEvent("Sending request...")
      res, err := client.Do(req)
      if err != nil {
          panic(err)
      }
      body, err = io.ReadAll(res.Body)
      span.AddEvent("Request received")
      _ = res.Body.Close()

      return err
  }(ctx)
  \<close>
  The result is the span with the calls made on it, and either the panic or the pair of
  \<^verbatim>\<open>body\<close> and the error returned. When \<^verbatim>\<open>NewRequestWithContext\<close> fails, \<^verbatim>\<open>req\<close> is
  \<^verbatim>\<open>nil\<close> and \<^verbatim>\<open>client.Do(req)\<close> panics on the nil pointer. The deferred
  \<^verbatim>\<open>span.End()\<close> runs on every path, the panics included.
\<close>

definition client_request :: "ctx \<Rightarrow> client_results \<Rightarrow> client_span \<times> (stop + string \<times> error)" where
  "client_request ctx r =
     (let sp0 = \<lparr>sp_tracer = clientName,
                 sp_name = ''Otel propagation example: sending package from boston'',
                 sp_parent = ctx, sp_calls = [],
                 sp_attributes = [(''peer.service'', ''otel-example-server'')]\<rparr>;
          sp1 = sp0\<lparr>sp_calls := sp_calls sp0 @ [AddEvent ''Sending request...'' []]\<rparr> in
      case NewRequestWithContext r of
        Some _ \<Rightarrow>
          (sp1\<lparr>sp_calls := sp_calls sp1 @ [End]\<rparr>,
           Inl (Panic ''runtime error: invalid memory address or nil pointer dereference''))
      | None \<Rightarrow>
          (case client_Do r of
             Some e \<Rightarrow> (sp1\<lparr>sp_calls := sp_calls sp1 @ [End]\<rparr>, Inl (Panic e))
           | None \<Rightarrow>
               (let (body', err) = io_ReadAll r;
                    sp2 = sp1\<lparr>sp_calls := sp_calls sp1 @ [AddEvent ''Request received'' []]\<rparr> in
                (sp2\<lparr>sp_calls := sp_calls sp2 @ [End]\<rparr>, Inr (body', err)))))"

text \<open>
  The client's \<^verbatim>\<open>main\<close>. Its arguments are the environment, the outcomes of the SDK
  constructors, the baggage that \<^verbatim>\<open>baggage.Parse\<close> returned and the results of the
  other external calls; its result is the lines printed, or the way it stopped.
  \<^item> \<^verbatim>\<open>initTracer\<close> runs before any \<^verbatim>\<open>defer\<close>; the error it returns is always
    \<^verbatim>\<open>nil\<close>, and \<^verbatim>\<open>log.Fatal(err)\<close> is kept as the code has it.
  \<^item> When the request panics, the deferred shut-down runs while the panic unwinds: an
    error of \<^verbatim>\<open>tp.Shutdown\<close> exits through \<^verbatim>\<open>log.Fatalf\<close>, otherwise the panic
    crashes the process.
  \<^item> When the request returns an error, \<^verbatim>\<open>telemetry.HandleErr\<close> exits; the deferred
    shut-down does not run.
  \<^item> Otherwise the three lines are printed and the deferred shut-down runs at the
    return.
\<close>

definition client_main ::
  "environ \<Rightarrow> sdk_results \<Rightarrow> (string \<rightharpoonup> string) \<Rightarrow> client_results \<Rightarrow> stop + string list" where
  "client_main env sdk bag r =
     (case initTracer env sdk of
        Inl s \<Rightarrow> Inl s
      | Inr (tp, err) \<Rightarrow>
          (case err of
             Some e \<Rightarrow> Inl (Fatal e)
           | None \<Rightarrow>
               (let ctx = \<lparr>ctx_baggage = bag, ctx_span = None\<rparr> in
                case snd (client_request ctx r) of
                  Inl p \<Rightarrow>
                    (case client_shutdown (tp_Shutdown r) of
                       Inl f \<Rightarrow> Inl f
                     | Inr _ \<Rightarrow> Inl p)
                | Inr (body', err) \<Rightarrow>
                    (case handleErr err ''Error executing handler request'' of
                       Inl f \<Rightarrow> Inl f
                     | Inr _ \<Rightarrow>
                         (case client_shutdown (tp_Shutdown r) of
                            Inl f \<Rightarrow> Inl f
                          | Inr _ \<Rightarrow>
                              Inr [''Response Received: '' @ body' @ [CHR 0x0A, CHR 0x0A, CHR 0x0A],
                                   ''Waiting for few seconds to export spans ...'' @
                                     [CHR 0x0A, CHR 0x0A],
                                   ''Inspect traces on jaeger'' @ [CHR 0x0A]])))))"

section \<open>Shared facts about the handler\<close>

lemma getPackage_result:
  "fst (getPackage ctx id') = (if id' = ''123'' then ''found package'' else ''unknown'')"
  by (simp add: getPackage_def Let_def)

lemma getPackage_calls:
  "sp_calls (snd (getPackage ctx id')) =
     (if id' = ''123''
      then [AddEvent ''getPackage'' [(''package'', id')], AddEvent ''found package'' [], End]
      else [AddEvent ''getPackage'' [(''package'', id')], RecordError ''package not found'', End])"
  by (simp add: getPackage_def Let_def call_def Start_def)

lemma packages_handler_response:
  "response (packages_handler w ctx id') = Write w (reply_of (fst (getPackage ctx id')) id')"
  by (simp add: packages_handler_def Let_def split: prod.splits)

lemma packages_handler_span:
  "package_span (packages_handler w ctx id') = snd (getPackage ctx id')"
  by (simp add: packages_handler_def Let_def split: prod.splits)


section \<open>Telemetry errors and the caller (C1)\<close>

text \<open>
  C1, as first stated, says that no telemetry error (exporter construction, resource
  creation, transmission) is fatal to the caller. The initialisation functions do
  otherwise: a failed Jaeger exporter and a failed resource each end the process through
  \<^verbatim>\<open>log.Fatalf\<close>.
\<close>

theorem telemetry_error_fatal_counterexample:
  "InitProviderWithJaegerExporter (map_of [(''GO_ENV'', ''development'')])
     \<lparr>resource_New = None, otlpmetricgrpc_New = None, otlptrace_New = Dialled None,
      jaeger_New = Some ''invalid collector endpoint''\<rparr>
   = Inl (Fatal ''error: invalid collector endpoint'')
   \<and> InitProvider serverName (map_of [(''GO_ENV'', ''development'')])
     \<lparr>resource_New = Some ''detector failed'', otlpmetricgrpc_New = None,
      otlptrace_New = Dialled None, jaeger_New = None\<rparr>
   = Inl (Fatal ''failed to create resource: detector failed'')"
  by (simp add: InitProviderWithJaegerExporter_def exporterToJaeger_def InitProvider_def
      handleErr_def Let_def)

text \<open>
  C1. What a telemetry failure does to its caller, function by function, the external
  calls other than the blocking dial being taken to return.
  \<^item> \<open>InitProvider\<close> returns if and only if resource creation, metric exporter
    construction and trace exporter construction all succeed. It exits through
    \<^verbatim>\<open>log.Fatalf\<close> if and only if one of the three returns an error. It neither
    returns nor exits if and only if the resource and the metric exporter succeed and
    the blocking dial of the trace exporter never completes.
  \<^item> \<open>InitProviderWithJaegerExporter\<close> returns if and only if exporter construction
    and resource creation succeed, and exits through \<^verbatim>\<open>log.Fatalf\<close> otherwise.
  \<^item> The client's \<open>initTracer\<close> discards the resource error; it returns if and only
    if the trace exporter is constructed, exits if and only if its construction returns
    an error, and blocks if and only if the dial never completes.
  \<^item> The client's deferred shut-down exits through \<^verbatim>\<open>log.Fatalf\<close> on an error of
    \<^verbatim>\<open>tp.Shutdown\<close> and returns otherwise.
  \<^item> The server's shut-down function hands each shut-down error to \<^verbatim>\<open>otel.Handle\<close>
    and returns.
  \<^item> The response of the packages handler is the same whatever the span and the
    baggage of the request's context.
  \<^item> The client's request closure panics when the request cannot be built or
    \<^verbatim>\<open>client.Do\<close> returns an error, and otherwise returns the bytes and the error of
    \<^verbatim>\<open>io.ReadAll\<close>; the span calls it makes do not change this.
  \<^item> The client's \<^verbatim>\<open>main\<close> runs to its end if and only if the trace exporter is
    constructed, the request is built and answered, the body is read without error and
    \<^verbatim>\<open>tp.Shutdown\<close> returns no error.
\<close>

theorem telemetry_failure_outcomes:
  "((\<exists>g. InitProvider name env sdk = Inr g) \<longleftrightarrow>
      resource_New sdk = None \<and> otlpmetricgrpc_New sdk = None
      \<and> otlptrace_New sdk = Dialled None)
   \<and> (InitProvider name env sdk = Inl Blocked \<longleftrightarrow>
      resource_New sdk = None \<and> otlpmetricgrpc_New sdk = None
      \<and> otlptrace_New sdk = DialBlocks)
   \<and> ((\<exists>m. InitProvider name env sdk = Inl (Fatal m)) \<longleftrightarrow>
      resource_New sdk \<noteq> None \<or> otlpmetricgrpc_New sdk \<noteq> None
      \<or> (\<exists>e. otlptrace_New sdk = Dialled (Some e)))
   \<and> ((\<exists>r. InitProviderWithJaegerExporter env sdk = Inr r) \<longleftrightarrow>
      jaeger_New sdk = None \<and> resource_New sdk = None)
   \<and> ((\<exists>m. InitProviderWithJaegerExporter env sdk = Inl (Fatal m)) \<longleftrightarrow>
      jaeger_New sdk \<noteq> None \<or> resource_New sdk \<noteq> None)
   \<and> ((\<exists>r. initTracer env sdk = Inr r) \<longleftrightarrow> otlptrace_New sdk = Dialled None)
   \<and> (initTracer env sdk = Inl Blocked \<longleftrightarrow> otlptrace_New sdk = DialBlocks)
   \<and> ((\<exists>m. initTracer env sdk = Inl (Fatal m)) \<longleftrightarrow>
      (\<exists>e. otlptrace_New sdk = Dialled (Some e)))
   \<and> client_shutdown e =
       (case e of
          None \<Rightarrow> Inr ()
        | Some x \<Rightarrow> Inl (Fatal (''Error shutting down tracer provider: '' @ x)))
   \<and> set (otelShutdown e1 e2) = set_option e1 \<union> set_option e2
   \<and> response (packages_handler w ctx id') = response (packages_handler w ctx' id')
   \<and> snd (client_request ctx r) =
       (case NewRequestWithContext r of
          Some x \<Rightarrow> Inl (Panic ''runtime error: invalid memory address or nil pointer dereference'')
        | None \<Rightarrow>
            (case client_Do r of
               Some x \<Rightarrow> Inl (Panic x)
             | None \<Rightarrow> Inr (io_ReadAll r)))
   \<and> ((\<exists>out. client_main env sdk bag r = Inr out) \<longleftrightarrow>
      otlptrace_New sdk = Dialled None \<and> NewRequestWithContext r = None
      \<and> client_Do r = None \<and> snd (io_ReadAll r) = None \<and> tp_Shutdown r = None)"
proof -
  have a1: "(\<exists>g. InitProvider name env sdk = Inr g) \<longleftrightarrow>
      resource_New sdk = None \<and> otlpmetricgrpc_New sdk = None
      \<and> otlptrace_New sdk = Dialled None"
    by (cases "resource_New sdk"; cases "otlpmetricgrpc_New sdk"; cases "otlptrace_New sdk")
       (simp_all add: InitProvider_def handleErr_def Let_def split: option.splits)
  have a2: "InitProvider name env sdk = Inl Blocked \<longleftrightarrow>
      resource_New sdk = None \<and> otlpmetricgrpc_New sdk = None
      \<and> otlptrace_New sdk = DialBlocks"
    by (cases "resource_New sdk"; cases "otlpmetricgrpc_New sdk"; cases "otlptrace_New sdk")
       (simp_all add: InitProvider_def handleErr_def Let_def split: option.splits)
  have a3: "(\<exists>m. InitProvider name env sdk = Inl (Fatal m)) \<longleftrightarrow>
      resource_New sdk \<noteq> None \<or> otlpmetricgrpc_New sdk \<noteq> None
      \<or> (\<exists>e. otlptrace_New sdk = Dialled (Some e))"
    by (cases "resource_New sdk"; cases "otlpmetricgrpc_New sdk"; cases "otlptrace_New sdk")
       (simp_all add: InitProvider_def handleErr_def Let_def split: option.splits)
  have b1: "(\<exists>r. InitProviderWithJaegerExporter env sdk = Inr r) \<longleftrightarrow>
      jaeger_New sdk = None \<and> resource_New sdk = None"
    by (cases "jaeger_New sdk"; cases "resource_New sdk")
       (simp_all add: InitProviderWithJaegerExporter_def exporterToJaeger_def newResource_def)
  have b2: "(\<exists>m. InitProviderWithJaegerExporter env sdk = Inl (Fatal m)) \<longleftrightarrow>
      jaeger_New sdk \<noteq> None \<or> resource_New sdk \<noteq> None"
    by (cases "jaeger_New sdk"; cases "resource_New sdk")
       (simp_all add: InitProviderWithJaegerExporter_def exporterToJaeger_def newResource_def)
  have c1: "(\<exists>r. initTracer env sdk = Inr r) \<longleftrightarrow> otlptrace_New sdk = Dialled None"
    by (cases "otlptrace_New sdk")
       (simp_all add: initTracer_def handleErr_def Let_def split: option.splits)
  have c2: "initTracer env sdk = Inl Blocked \<longleftrightarrow> otlptrace_New sdk = DialBlocks"
    by (cases "otlptrace_New sdk")
       (simp_all add: initTracer_def handleErr_def Let_def split: option.splits)
  have c3: "(\<exists>m. initTracer env sdk = Inl (Fatal m)) \<longleftrightarrow>
      (\<exists>e. otlptrace_New sdk = Dialled (Some e))"
    by (cases "otlptrace_New sdk")
       (simp_all add: initTracer_def handleErr_def Let_def split: option.splits)
  have d: "client_shutdown e =
       (case e of
          None \<Rightarrow> Inr ()
        | Some x \<Rightarrow> Inl (Fatal (''Error shutting down tracer provider: '' @ x)))"
    by (simp add: client_shutdown_def handleErr_def split: option.splits)
  have e: "set (otelShutdown e1 e2) = set_option e1 \<union> set_option e2"
    by (cases e1; cases e2) (auto simp: otelShutdown_def)
  have f: "response (packages_handler w ctx id') = response (packages_handler w ctx' id')"
    by (simp add: packages_handler_response getPackage_result)
  have g: "snd (client_request c r) =
       (case NewRequestWithContext r of
          Some x \<Rightarrow> Inl (Panic ''runtime error: invalid memory address or nil pointer dereference'')
        | None \<Rightarrow>
            (case client_Do r of
               Some x \<Rightarrow> Inl (Panic x)
             | None \<Rightarrow> Inr (io_ReadAll r)))" for c
    by (simp add: client_request_def Let_def split: option.splits prod.splits)
  have h: "(\<exists>out. client_main env sdk bag r = Inr out) \<longleftrightarrow>
      otlptrace_New sdk = Dialled None \<and> NewRequestWithContext r = None
      \<and> client_Do r = None \<and> snd (io_ReadAll r) = None \<and> tp_Shutdown r = None"
  proof (cases "initTracer env sdk")
    case (Inl s)
    then have "otlptrace_New sdk \<noteq> Dialled None" using c1 by auto
    then show ?thesis using Inl by (simp add: client_main_def)
  next
    case (Inr tpe)
    then have t: "otlptrace_New sdk = Dialled None" using c1 by auto
    obtain tp err where tpe: "tpe = (tp, err)" by (cases tpe)
    have err: "err = None"
      using Inr tpe by (auto simp: initTracer_def Let_def split: dial.splits sum.splits)
    obtain b' re where ra: "io_ReadAll r = (b', re)" by (cases "io_ReadAll r")
    show ?thesis
      by (cases "NewRequestWithContext r"; cases "client_Do r"; cases re; cases "tp_Shutdown r")
         (simp_all add: client_main_def Inr tpe err t g client_shutdown_def ra handleErr_def)
  qed
  show ?thesis
    by (intro conjI) (fact a1 a2 a3 b1 b2 c1 c2 c3 d e f g h)+
qed

theorem telemetry_failure_outcomes_witness:
  "(\<exists>g. InitProvider serverName (map_of [])
         \<lparr>resource_New = None, otlpmetricgrpc_New = None, otlptrace_New = Dialled None,
          jaeger_New = None\<rparr> = Inr g)
   \<and> InitProvider serverName (map_of [])
         \<lparr>resource_New = None, otlpmetricgrpc_New = None, otlptrace_New = DialBlocks,
          jaeger_New = None\<rparr> = Inl Blocked
   \<and> resource_New \<lparr>resource_New = Some ''detector failed'', otlpmetricgrpc_New = None,
          otlptrace_New = Dialled None, jaeger_New = None\<rparr> \<noteq> None
   \<and> (\<exists>m. InitProvider serverName (map_of [])
         \<lparr>resource_New = Some ''detector failed'', otlpmetricgrpc_New = None,
          otlptrace_New = Dialled None, jaeger_New = None\<rparr> = Inl (Fatal m))
   \<and> (\<exists>m. InitProviderWithJaegerExporter (map_of [])
         \<lparr>resource_New = Some ''detector failed'', otlpmetricgrpc_New = None,
          otlptrace_New = Dialled None, jaeger_New = None\<rparr> = Inl (Fatal m))
   \<and> (\<exists>t. initTracer (map_of [])
         \<lparr>resource_New = Some ''detector failed'', otlpmetricgrpc_New = None,
          otlptrace_New = Dialled None, jaeger_New = None\<rparr> = Inr t)
   \<and> initTracer (map_of [])
         \<lparr>resource_New = None, otlpmetricgrpc_New = None, otlptrace_New = DialBlocks,
          jaeger_New = None\<rparr> = Inl Blocked
   \<and> client_shutdown (Some ''exporter unavailable'')
       = Inl (Fatal ''Error shutting down tracer provider: exporter unavailable'')
   \<and> set (otelShutdown (Some ''exporter unavailable'') None) = {''exporter unavailable''}
   \<and> response (packages_handler new_response
          \<lparr>ctx_baggage = map_of [(''destination'', ''newyork'')], ctx_span = Some 1\<rparr> ''123'')
       = response (packages_handler new_response
          \<lparr>ctx_baggage = map_of [], ctx_span = None\<rparr> ''123'')
   \<and> snd (client_request \<lparr>ctx_baggage = map_of [(''destination'', ''newyork'')], ctx_span = Some 1\<rparr>
          \<lparr>NewRequestWithContext = None, client_Do = Some ''connection refused'',
           io_ReadAll = ([], None), tp_Shutdown = None\<rparr>)
       = Inl (Panic ''connection refused'')
   \<and> (\<exists>out. client_main (map_of [])
         \<lparr>resource_New = None, otlpmetricgrpc_New = None, otlptrace_New = Dialled None,
          jaeger_New = None\<rparr>
         (map_of [(''destination'', ''newyork''), (''transportation'', ''truck'')])
         \<lparr>NewRequestWithContext = None, client_Do = None,
          io_ReadAll = (''package is found package (id 123)'' @ [CHR 0x0A], None),
          tp_Shutdown = None\<rparr> = Inr out)
   \<and> (\<nexists>out. client_main (map_of [])
         \<lparr>resource_New = None, otlpmetricgrpc_New = None, otlptrace_New = DialBlocks,
          jaeger_New = None\<rparr>
         (map_of [(''destination'', ''newyork''), (''transportation'', ''truck'')])
         \<lparr>NewRequestWithContext = None, client_Do = None,
          io_ReadAll = (''package is found package (id 123)'' @ [CHR 0x0A], None),
          tp_Shutdown = None\<rparr> = Inr out)"
proof -
  let ?ok = "\<lparr>resource_New = None, otlpmetricgrpc_New = None, otlptrace_New = Dialled None,
             jaeger_New = None\<rparr>"
  let ?blocked = "\<lparr>resource_New = None, otlpmetricgrpc_New = None, otlptrace_New = DialBlocks,
             jaeger_New = None\<rparr>"
  let ?resfail = "\<lparr>resource_New = Some ''detector failed'', otlpmetricgrpc_New = None,
             otlptrace_New = Dialled None, jaeger_New = None\<rparr>"
  let ?c1 = "\<lparr>ctx_baggage = map_of [(''destination'', ''newyork'')], ctx_span = Some 1\<rparr>"
  let ?c2 = "\<lparr>ctx_baggage = map_of [], ctx_span = None\<rparr>"
  let ?bag = "map_of [(''destination'', ''newyork''), (''transportation'', ''truck'')]
                :: string \<rightharpoonup> string"
  let ?rok = "\<lparr>NewRequestWithContext = None, client_Do = None,
          io_ReadAll = (''package is found package (id 123)'' @ [CHR 0x0A], None),
          tp_Shutdown = None\<rparr>"
  let ?rfail = "\<lparr>NewRequestWithContext = None, client_Do = Some ''connection refused'',
           io_ReadAll = ([], None), tp_Shutdown = None\<rparr>"
  let ?e = "Some ''exporter unavailable'' :: error"
  note t1 = telemetry_failure_outcomes [where name = serverName and env = "map_of []" and sdk = ?ok
      and e = ?e and ?e1.0 = ?e and ?e2.0 = None and w = new_response and ctx = ?c1
      and id' = "''123''" and ctx' = ?c2 and r = ?rfail and bag = ?bag]
  note t2 = telemetry_failure_outcomes [where name = serverName and env = "map_of []" and sdk = ?blocked
      and e = ?e and ?e1.0 = ?e and ?e2.0 = None and w = new_response and ctx = ?c1
      and id' = "''123''" and ctx' = ?c2 and r = ?rok and bag = ?bag]
  note t3 = telemetry_failure_outcomes [where name = serverName and env = "map_of []" and sdk = ?resfail
      and e = ?e and ?e1.0 = ?e and ?e2.0 = None and w = new_response and ctx = ?c1
      and id' = "''123''" and ctx' = ?c2 and r = ?rok and bag = ?bag]
  note t4 = telemetry_failure_outcomes [where name = serverName and env = "map_of []" and sdk = ?ok
      and e = ?e and ?e1.0 = ?e and ?e2.0 = None and w = new_response and ctx = ?c1
      and id' = "''123''" and ctx' = ?c2 and r = ?rok and bag = ?bag]
  show ?thesis using t1 t2 t3 t4 by simp
qed

section \<open>Sampler selection (C3)\<close>

text \<open>
  C3. The sampler is always-sample unless the configuration says otherwise: for every
  value of \<^verbatim>\<open>GO_ENV\<close> other than \<^verbatim>\<open>production\<close> (unset included) \<open>getSampler\<close>
  returns \<open>AlwaysSample\<close>, which samples whatever the inherited flag and the trace
  id; for \<^verbatim>\<open>production\<close> it returns the parent-based policy over the trace-id ratio
  one half, which returns an inherited sampled flag when there is one and otherwise the
  ratio decision. Both initialisation functions install a tracer provider with this
  sampler.
\<close>

theorem getSampler_policy:
  "(Getenv env ''GO_ENV'' \<noteq> ''production'' \<longrightarrow>
      getSampler env = AlwaysSample \<and> decide ratio (getSampler env) inherited t)
   \<and> (Getenv env ''GO_ENV'' = ''production'' \<longrightarrow>
      getSampler env = ParentBased (TraceIDRatioBased (1 / 2))
      \<and> decide ratio (getSampler env) (Some flag) t = flag
      \<and> decide ratio (getSampler env) None t = ratio (1 / 2) t)
   \<and> (InitProvider name env sdk = Inr g \<longrightarrow>
      map_option tp_sampler (TracerProvider g) = Some (getSampler env))
   \<and> (InitProviderWithJaegerExporter env sdk = Inr (tp, e) \<longrightarrow>
      tp_sampler tp = getSampler env)"
proof -
  have a: "Getenv env ''GO_ENV'' \<noteq> ''production'' \<Longrightarrow> getSampler env = AlwaysSample"
    by (simp add: getSampler_def Let_def)
  have b: "Getenv env ''GO_ENV'' = ''production'' \<Longrightarrow>
      getSampler env = ParentBased (TraceIDRatioBased (1 / 2))"
    by (simp add: getSampler_def Let_def)
  have c: "InitProvider name env sdk = Inr g \<Longrightarrow>
      map_option tp_sampler (TracerProvider g) = Some (getSampler env)"
    by (auto simp: InitProvider_def Let_def split: sum.splits dial.splits)
  have d: "InitProviderWithJaegerExporter env sdk = Inr (tp, e) \<Longrightarrow>
      tp_sampler tp = getSampler env"
    by (auto simp: InitProviderWithJaegerExporter_def split: sum.splits)
  show ?thesis using a b c d by simp
qed

theorem getSampler_policy_witness:
  "Getenv (map_of [(''GO_ENV'', ''staging'')]) ''GO_ENV'' \<noteq> ''production''
   \<and> getSampler (map_of [(''GO_ENV'', ''staging'')]) = AlwaysSample
   \<and> decide (\<lambda>p t. rat_of_nat t < p * 100) (getSampler (map_of [(''GO_ENV'', ''staging'')]))
        None (70::nat)
   \<and> Getenv (map_of [(''GO_ENV'', ''production'')]) ''GO_ENV'' = ''production''
   \<and> decide (\<lambda>p t. rat_of_nat t < p * 100) (getSampler (map_of [(''GO_ENV'', ''production'')]))
        (Some True) (70::nat)
   \<and> \<not> decide (\<lambda>p t. rat_of_nat t < p * 100) (getSampler (map_of [(''GO_ENV'', ''production'')]))
        None (70::nat)
   \<and> decide (\<lambda>p t. rat_of_nat t < p * 100) (getSampler (map_of [(''GO_ENV'', ''production'')]))
        None (30::nat)
   \<and> InitProvider serverName (map_of [(''GO_ENV'', ''production'')])
        \<lparr>resource_New = None, otlpmetricgrpc_New = None, otlptrace_New = Dialled None,
         jaeger_New = None\<rparr>
      = Inr \<lparr>MeterProvider =
               Some \<lparr>mp_resource = [(''service.name'', ''otel-example-server''),
                                     (''environment'', ''production'')],
                     mp_endpoint = ''0.0.0.0:4317'', mp_interval_seconds = 2\<rparr>,
             TextMapPropagator = [TraceContext, Baggage],
             TracerProvider =
               Some \<lparr>tp_sampler = ParentBased (TraceIDRatioBased (1 / 2)),
                     tp_resource = [(''service.name'', ''otel-example-server''),
                                    (''environment'', ''production'')],
                     tp_exporter = OTLPTraceGRPC ''0.0.0.0:4317''\<rparr>\<rparr>
   \<and> InitProviderWithJaegerExporter (map_of [(''GO_ENV'', ''production'')])
        \<lparr>resource_New = None, otlpmetricgrpc_New = None, otlptrace_New = Dialled None,
         jaeger_New = None\<rparr>
      = Inr (\<lparr>tp_sampler = ParentBased (TraceIDRatioBased (1 / 2)),
              tp_resource = [(''service.name'', []), (''environment'', ''production'')],
              tp_exporter = JaegerCollector []\<rparr>, None)
   \<and> getSampler (map_of [(''GO_ENV'', ''production'')]) = ParentBased (TraceIDRatioBased (1 / 2))"
proof -
  let ?dev = "map_of [(''GO_ENV'', ''staging'')] :: environ"
  let ?prod = "map_of [(''GO_ENV'', ''production'')] :: environ"
  let ?ok = "\<lparr>resource_New = None, otlpmetricgrpc_New = None, otlptrace_New = Dialled None,
             jaeger_New = None\<rparr>"
  let ?r = "\<lambda>p (t::nat). rat_of_nat t < p * 100"
  let ?res = "[(''service.name'', ''otel-example-server''), (''environment'', ''production'')]"
  let ?g = "\<lparr>MeterProvider =
               Some \<lparr>mp_resource = ?res, mp_endpoint = ''0.0.0.0:4317'',
                     mp_interval_seconds = 2\<rparr>,
             TextMapPropagator = [TraceContext, Baggage],
             TracerProvider =
               Some \<lparr>tp_sampler = ParentBased (TraceIDRatioBased (1 / 2)), tp_resource = ?res,
                     tp_exporter = OTLPTraceGRPC ''0.0.0.0:4317''\<rparr>\<rparr>"
  let ?tp = "\<lparr>tp_sampler = ParentBased (TraceIDRatioBased (1 / 2)),
              tp_resource = [(''service.name'', []), (''environment'', ''production'')],
              tp_exporter = JaegerCollector []\<rparr>"
  have dev: "Getenv ?dev ''GO_ENV'' \<noteq> ''production''"
    by (simp add: Getenv_def)
  have prod: "Getenv ?prod ''GO_ENV'' = ''production''"
    by (simp add: Getenv_def)
  have g: "InitProvider serverName ?prod ?ok = Inr ?g"
    by (simp add: InitProvider_def handleErr_def Let_def getSampler_def serverName_def
        Getenv_def)
  have j: "InitProviderWithJaegerExporter ?prod ?ok = Inr (?tp, None)"
    by (simp add: InitProviderWithJaegerExporter_def exporterToJaeger_def newResource_def
        getSampler_def Getenv_def)
  note d = getSampler_policy [of ?dev ?r None 70 True serverName ?ok ?g ?tp None]
  note p1 = getSampler_policy [of ?prod ?r None 70 True serverName ?ok ?g ?tp None]
  note p2 = getSampler_policy [of ?prod ?r None 30 True serverName ?ok ?g ?tp None]
  have c1: "getSampler ?dev = AlwaysSample" using d dev by blast
  have c2: "decide ?r (getSampler ?dev) None 70" using d dev by blast
  have c3: "decide ?r (getSampler ?prod) (Some True) 70" using p1 prod by blast
  have "decide ?r (getSampler ?prod) None 70 = ?r (1 / 2) 70" using p1 prod by blast
  then have c4: "\<not> decide ?r (getSampler ?prod) None 70" by simp
  have "decide ?r (getSampler ?prod) None 30 = ?r (1 / 2) 30" using p2 prod by blast
  then have c5: "decide ?r (getSampler ?prod) None 30" by simp
  have "tp_sampler ?tp = getSampler ?prod" using p1 j by blast
  then have c6: "getSampler ?prod = ParentBased (TraceIDRatioBased (1 / 2))" by simp
  show ?thesis using dev prod c1 c2 c3 c4 c5 g j c6 by blast
qed

section \<open>The package lookup (C9)\<close>

text \<open>
  C9. For every id, \<open>getPackage\<close> returns \<^verbatim>\<open>"found package"\<close> if and only if the id
  is \<^verbatim>\<open>"123"\<close>, and \<^verbatim>\<open>"unknown"\<close> for every other id. The event
  \<^verbatim>\<open>"found package"\<close> is added to the span exactly once when the id is \<^verbatim>\<open>"123"\<close> and
  not at all otherwise; the error \<^verbatim>\<open>"package not found"\<close> is recorded on the span
  exactly once when the id is not \<^verbatim>\<open>"123"\<close> and no error is recorded otherwise.
\<close>

theorem getPackage_found_iff:
  "(fst (getPackage ctx id') = ''found package'' \<longleftrightarrow> id' = ''123'')
   \<and> (id' \<noteq> ''123'' \<longrightarrow> fst (getPackage ctx id') = ''unknown'')
   \<and> count_list (sp_calls (snd (getPackage ctx id'))) (AddEvent ''found package'' []) =
       (if id' = ''123'' then 1 else 0)
   \<and> ((\<exists>a. AddEvent ''found package'' a \<in> set (sp_calls (snd (getPackage ctx id'))))
        \<longleftrightarrow> id' = ''123'')
   \<and> count_list (sp_calls (snd (getPackage ctx id'))) (RecordError ''package not found'') =
       (if id' = ''123'' then 0 else 1)
   \<and> ((\<exists>e. RecordError e \<in> set (sp_calls (snd (getPackage ctx id'))))
        \<longleftrightarrow> id' \<noteq> ''123'')"
  by (simp add: getPackage_result getPackage_calls)

theorem getPackage_found_iff_witness:
  "fst (getPackage \<lparr>ctx_baggage = map_of [], ctx_span = Some 1\<rparr> ''123'') = ''found package''
   \<and> count_list (sp_calls (snd (getPackage \<lparr>ctx_baggage = map_of [], ctx_span = Some 1\<rparr> ''123'')))
        (AddEvent ''found package'' []) = 1
   \<and> ''7'' \<noteq> ''123''
   \<and> fst (getPackage \<lparr>ctx_baggage = map_of [], ctx_span = Some 1\<rparr> ''7'') = ''unknown''
   \<and> count_list (sp_calls (snd (getPackage \<lparr>ctx_baggage = map_of [], ctx_span = Some 1\<rparr> ''7'')))
        (RecordError ''package not found'') = 1"
  using getPackage_found_iff [of "\<lparr>ctx_baggage = map_of [], ctx_span = Some 1\<rparr>" "''123''"]
        getPackage_found_iff [of "\<lparr>ctx_baggage = map_of [], ctx_span = Some 1\<rparr>" "''7''"]
  by simp

section \<open>The handler's response (C10)\<close>

text \<open>
  C10. For every request that reaches the handler of \<^verbatim>\<open>/packages/{id}\<close>, the handler
  writes exactly one chunk to the response body, the string
  \<^verbatim>\<open>"package is <r> (id <id>)\n"\<close> where \<^verbatim>\<open><r>\<close> is what \<open>getPackage\<close> returned, and
  the status of a fresh response is 200. When the package is not found the error is
  recorded on the span of \<open>getPackage\<close>, and the response is still the 200 response
  with the body \<^verbatim>\<open>"package is unknown (id <id>)\n"\<close>.
\<close>

theorem packages_handler_reply:
  "body (response (packages_handler w ctx id')) =
     body w @ [''package is '' @ fst (getPackage ctx id') @ '' (id '' @ id' @ '')'' @ [CHR 0x0A]]
   \<and> body (response (packages_handler new_response ctx id')) =
     [''package is '' @ fst (getPackage ctx id') @ '' (id '' @ id' @ '')'' @ [CHR 0x0A]]
   \<and> status (response (packages_handler new_response ctx id')) = Some 200
   \<and> (id' \<noteq> ''123'' \<longrightarrow>
        RecordError ''package not found''
          \<in> set (sp_calls (package_span (packages_handler new_response ctx id')))
        \<and> response (packages_handler new_response ctx id') =
            \<lparr>status = Some 200,
             body = [''package is unknown (id '' @ id' @ '')'' @ [CHR 0x0A]]\<rparr>)"
  by (simp add: packages_handler_response packages_handler_span getPackage_result
      getPackage_calls Write_def reply_of_def new_response_def)

theorem packages_handler_reply_witness:
  "''7'' \<noteq> ''123''
   \<and> RecordError ''package not found''
        \<in> set (sp_calls (package_span (packages_handler new_response
             \<lparr>ctx_baggage = map_of [(''destination'', ''newyork'')], ctx_span = Some 1\<rparr> ''7'')))
   \<and> response (packages_handler new_response
        \<lparr>ctx_baggage = map_of [(''destination'', ''newyork'')], ctx_span = Some 1\<rparr> ''7'') =
       \<lparr>status = Some 200, body = [''package is unknown (id 7)'' @ [CHR 0x0A]]\<rparr>"
  using packages_handler_reply
    [of new_response
        "\<lparr>ctx_baggage = map_of [(''destination'', ''newyork'')], ctx_span = Some 1\<rparr>" "''7''"]
  by simp

end
